theory Spec2Isabelle
  imports Main "HOL-Library.AList" "HOL-Library.Multiset"
begin

section \<open>Common data: bytes, paths, Python errors\<close>

text \<open>
  The repository is one Python module, \<^verbatim>\<open>distributed_storage.py\<close>, with three classes:
  \<^verbatim>\<open>FilePartitioner\<close>, \<^verbatim>\<open>StorageNode\<close> and \<^verbatim>\<open>DistributedStorageClient\<close>.
  Python \<^verbatim>\<open>bytes\<close> are lists of 8-bit characters, Python \<^verbatim>\<open>int\<close> is \<open>int\<close>, a path is
  the string the code passes to \<^verbatim>\<open>open\<close>. The digest function (\<^verbatim>\<open>hashlib.sha256(..).hexdigest()\<close>)
  belongs to the Python library: every function that hashes takes it as the parameter \<open>H\<close>.
\<close>

type_synonym bytes = string
type_synonym path = string
type_synonym digest = string

datatype py_error = OSError | FileNotFoundError | FileExistsError | IsADirectoryError | KeyError
  | ValueError

fun str_error :: "py_error \<Rightarrow> string" where
  "str_error OSError = ''OSError''"
| "str_error FileNotFoundError = ''FileNotFoundError''"
| "str_error FileExistsError = ''FileExistsError''"
| "str_error IsADirectoryError = ''IsADirectoryError''"
| "str_error KeyError = ''KeyError''"
| "str_error ValueError = ''ValueError''"


subsection \<open>Decimal rendering of integers (f-strings)\<close>

definition digit_char :: "nat \<Rightarrow> char" where
  "digit_char n = ''0123456789'' ! (n mod 10)"

function str_nat :: "nat \<Rightarrow> string" where
  "str_nat n = (if n < 10 then [digit_char n] else str_nat (n div 10) @ [digit_char (n mod 10)])"
  by pat_completeness auto
termination
  by (relation "measure (\<lambda>n. n)") auto

declare str_nat.simps [simp del]

definition str_int :: "int \<Rightarrow> string" where
  "str_int i = (if i < 0 then CHR ''-'' # str_nat (nat (- i)) else str_nat (nat i))"

subsection \<open>The file system\<close>

text \<open>
  A disk is the regular files with their contents and the set of directories. Every
  operation of the operating system can fail for reasons outside the program (no space,
  no permission, a directory that is not empty): the fault oracle \<open>flt\<close> says which
  operations fail during one call. A failed operation leaves the disk as it was.
\<close>

record disk =
  files :: "path \<rightharpoonup> bytes"
  dirs :: "path set"

datatype disk_op = OpRead path | OpMkdir path | OpOpen path | OpWrite path
  | OpRemove path | OpRmdir path

type_synonym faults = "disk_op \<Rightarrow> bool"

definition no_faults :: faults where
  "no_faults = (\<lambda>_. False)"

definition path_join :: "path \<Rightarrow> string \<Rightarrow> path" where
  \<comment> \<open>\<^verbatim>\<open>Path / name\<close> for a relative name\<close>
  "path_join a b = a @ ''/'' @ b"


definition read_file :: "faults \<Rightarrow> disk \<Rightarrow> path \<Rightarrow> py_error + bytes" where
  \<comment> \<open>\<^verbatim>\<open>open(p, 'rb')\<close>, the handle then yields the content\<close>
  "read_file flt d p =
     (if flt (OpRead p) then Inl OSError
      else case files d p of
        None \<Rightarrow> Inl (if p \<in> dirs d then IsADirectoryError else FileNotFoundError)
      | Some b \<Rightarrow> Inr b)"

definition mkdir_exist_ok :: "faults \<Rightarrow> disk \<Rightarrow> path \<Rightarrow> py_error + disk" where
  \<comment> \<open>\<^verbatim>\<open>Path.mkdir(exist_ok=True)\<close>\<close>
  "mkdir_exist_ok flt d p =
     (if flt (OpMkdir p) then Inl OSError
      else if files d p \<noteq> None then Inl FileExistsError
      else Inr (d\<lparr>dirs := insert p (dirs d)\<rparr>))"

definition open_wb :: "faults \<Rightarrow> disk \<Rightarrow> path \<Rightarrow> py_error + disk" where
  \<comment> \<open>\<^verbatim>\<open>open(p, 'wb')\<close>: creates the file or truncates it\<close>
  "open_wb flt d p =
     (if flt (OpOpen p) then Inl OSError
      else if p \<in> dirs d then Inl IsADirectoryError
      else Inr (d\<lparr>files := (files d)(p \<mapsto> [])\<rparr>))"

definition f_write :: "faults \<Rightarrow> disk \<Rightarrow> path \<Rightarrow> bytes \<Rightarrow> py_error + disk" where
  \<comment> \<open>\<^verbatim>\<open>f.write(data)\<close> on a handle opened for writing: appends\<close>
  "f_write flt d p data =
     (if flt (OpWrite p) then Inl OSError
      else Inr (d\<lparr>files := (files d)(p \<mapsto> (case files d p of None \<Rightarrow> [] | Some b \<Rightarrow> b) @ data)\<rparr>))"

definition path_exists :: "disk \<Rightarrow> path \<Rightarrow> bool" where
  "path_exists d p = (files d p \<noteq> None \<or> p \<in> dirs d)"

definition os_remove :: "faults \<Rightarrow> disk \<Rightarrow> path \<Rightarrow> py_error + disk" where
  "os_remove flt d p =
     (if flt (OpRemove p) then Inl OSError
      else if files d p = None
        then Inl (if p \<in> dirs d then IsADirectoryError else FileNotFoundError)
      else Inr (d\<lparr>files := (files d)(p := None)\<rparr>))"

definition rmdir :: "faults \<Rightarrow> disk \<Rightarrow> path \<Rightarrow> py_error + disk" where
  \<comment> \<open>a directory that still has entries is one of the oracle's faults\<close>
  "rmdir flt d p =
     (if flt (OpRmdir p) then Inl OSError
      else if p \<notin> dirs d then Inl FileNotFoundError
      else Inr (d\<lparr>dirs := dirs d - {p}\<rparr>))"

section \<open>Module 1: FilePartitioner\<close>







fun write_chunks ::
  "faults \<Rightarrow> disk \<Rightarrow> path \<Rightarrow> (int \<times> bytes) list \<Rightarrow> py_error option \<times> disk" where
  "write_chunks flt d p [] = (None, d)"
| "write_chunks flt d p ((_, chunk_data) # cs) =
     (case f_write flt d p chunk_data of
        Inl e \<Rightarrow> (Some e, d)
      | Inr d' \<Rightarrow> write_chunks flt d' p cs)"

definition reassemble_file ::
  "faults \<Rightarrow> disk \<Rightarrow> (int \<times> bytes) list \<Rightarrow> path \<Rightarrow> py_error option \<times> disk" where
  "reassemble_file flt d chunks output_path =
     (let sorted_chunks = sort_key fst chunks in
      case open_wb flt d output_path of
        Inl e \<Rightarrow> (Some e, d)
      | Inr d1 \<Rightarrow> write_chunks flt d1 output_path sorted_chunks)"



section \<open>Module 2: StorageNode\<close>

text \<open>
  A node registration (the dictionary \<^verbatim>\<open>{'node_id', 'host', 'port'}\<close> of the client) and
  a storage node, which has the same three attributes, its storage directory, its
  in-memory index and its disk. A Python \<^verbatim>\<open>dict\<close> keeps its keys in insertion order and a
  store under an existing key keeps the key's place: that is \<open>AList.update\<close> on an
  association list.
\<close>

record node =
  node_id :: int
  host :: string
  port :: int

record storage_node = node +
  storage_dir :: path
  metadata :: "(string \<times> (int \<times> digest \<times> path) list) list"
  ndisk :: disk

datatype request =
    STORE string int bytes digest
  | RETRIEVE string int
  | LIST
  | DELETE string
  | OTHER string

datatype response =
    StoreOk string int
  | RetrieveOk bytes digest int
  | ListOk "(string \<times> int list) list" int
  | DeleteOk string
  | Error string

fun is_success :: "response \<Rightarrow> bool" where
  \<comment> \<open>\<^verbatim>\<open>response['status'] == 'success'\<close>\<close>
  "is_success (Error _) = False"
| "is_success _ = True"

definition chunk_file_name :: "int \<Rightarrow> string" where
  "chunk_file_name chunk_id = ''chunk_'' @ str_int chunk_id @ ''.dat''"

definition store_chunk ::
  "faults \<Rightarrow> 'a storage_node_scheme \<Rightarrow> string \<Rightarrow> int \<Rightarrow> bytes \<Rightarrow> digest
     \<Rightarrow> response \<times> 'a storage_node_scheme" where
  "store_chunk flt s filename chunk_id chunk_data chunk_hash =
     (let file_dir = path_join (storage_dir s) filename in
      case mkdir_exist_ok flt (ndisk s) file_dir of
        Inl e \<Rightarrow> (Error (str_error e), s)
      | Inr d1 \<Rightarrow>
          (let chunk_path = path_join file_dir (chunk_file_name chunk_id) in
           case open_wb flt d1 chunk_path of
             Inl e \<Rightarrow> (Error (str_error e), s\<lparr>ndisk := d1\<rparr>)
           | Inr d2 \<Rightarrow>
               (case f_write flt d2 chunk_path chunk_data of
                  Inl e \<Rightarrow> (Error (str_error e), s\<lparr>ndisk := d2\<rparr>)
                | Inr d3 \<Rightarrow>
                    (let md = (if map_of (metadata s) filename = None
                               then AList.update filename [] (metadata s)
                               else metadata s);
                         md' = AList.map_entry filename
                                 (AList.update chunk_id (chunk_hash, chunk_path)) md
                     in (StoreOk (''Chunk '' @ str_int chunk_id @ '' stored'') (node_id s),
                         s\<lparr>ndisk := d3, metadata := md'\<rparr>)))))"

definition retrieve_chunk ::
  "faults \<Rightarrow> 'a storage_node_scheme \<Rightarrow> string \<Rightarrow> int \<Rightarrow> response" where
  "retrieve_chunk flt s filename chunk_id =
     (case map_of (metadata s) filename of
        None \<Rightarrow> Error ''Chunk not found''
      | Some chunks \<Rightarrow>
          (case map_of chunks chunk_id of
             None \<Rightarrow> Error ''Chunk not found''
           | Some (chunk_hash, chunk_path) \<Rightarrow>
               (case read_file flt (ndisk s) chunk_path of
                  Inl e \<Rightarrow> Error (str_error e)
                | Inr chunk_data \<Rightarrow> RetrieveOk chunk_data chunk_hash (node_id s))))"

definition list_files :: "'a storage_node_scheme \<Rightarrow> response" where
  "list_files s = ListOk (map (\<lambda>(filename, chunks). (filename, map fst chunks)) (metadata s)) (node_id s)"

fun remove_chunks ::
  "faults \<Rightarrow> disk \<Rightarrow> (int \<times> digest \<times> path) list \<Rightarrow> py_error option \<times> disk" where
  "remove_chunks flt d [] = (None, d)"
| "remove_chunks flt d ((chunk_id, _, chunk_path) # rest) =
     (if path_exists d chunk_path
      then (case os_remove flt d chunk_path of
              Inl e \<Rightarrow> (Some e, d)
            | Inr d' \<Rightarrow> remove_chunks flt d' rest)
      else remove_chunks flt d rest)"

definition delete_file ::
  "faults \<Rightarrow> 'a storage_node_scheme \<Rightarrow> string \<Rightarrow> response \<times> 'a storage_node_scheme" where
  "delete_file flt s filename =
     (case map_of (metadata s) filename of
        None \<Rightarrow> (Error ''File not found'', s)
      | Some chunks \<Rightarrow>
          (case remove_chunks flt (ndisk s) chunks of
             (Some e, d1) \<Rightarrow> (Error (str_error e), s\<lparr>ndisk := d1\<rparr>)
           | (None, d1) \<Rightarrow>
               (let file_dir = path_join (storage_dir s) filename in
                case (if path_exists d1 file_dir then rmdir flt d1 file_dir else Inr d1) of
                  Inl e \<Rightarrow> (Error (str_error e), s\<lparr>ndisk := d1\<rparr>)
                | Inr d2 \<Rightarrow>
                    (DeleteOk ''File deleted'',
                     s\<lparr>ndisk := d2, metadata := AList.delete filename (metadata s)\<rparr>))))"

fun handle_client ::
  "faults \<Rightarrow> 'a storage_node_scheme \<Rightarrow> request \<Rightarrow> response \<times> 'a storage_node_scheme" where
  "handle_client flt s (STORE filename chunk_id chunk_data chunk_hash) =
     store_chunk flt s filename chunk_id chunk_data chunk_hash"
| "handle_client flt s (RETRIEVE filename chunk_id) = (retrieve_chunk flt s filename chunk_id, s)"
| "handle_client flt s LIST = (list_files s, s)"
| "handle_client flt s (DELETE filename) = delete_file flt s filename"
| "handle_client flt s (OTHER _) = (Error ''Unknown command'', s)"

section \<open>Module 3: DistributedStorageClient\<close>

text \<open>
  The client's state: the replication factor, its partitioner (a \<^verbatim>\<open>FilePartitioner\<close> holds
  nothing but its chunk size), the registered nodes and the file mapping
  \<^verbatim>\<open>{filename: {chunk_id: [node_ids]}}\<close>.

  \<^verbatim>\<open>send_request\<close> talks to another process over a socket and turns every exception into
  an error response. What the other side answers, and how it changes by being asked, is
  the network \<open>send\<close>: from a state of the world \<open>'w\<close>, a node and a request to a
  response and the next state of the world.
\<close>

record client =
  replication_factor :: int
  partitioner :: int
  nodes :: "node list"
  file_mapping :: "(string \<times> (int \<times> int list) list) list"


definition add_node :: "client \<Rightarrow> int \<Rightarrow> string \<Rightarrow> int \<Rightarrow> client" where
  "add_node c nid h p = c\<lparr>nodes := nodes c @ [\<lparr>node_id = nid, host = h, port = p\<rparr>]\<rparr>"

definition target_nodes :: "int \<Rightarrow> node list \<Rightarrow> int \<Rightarrow> node list" where
  \<comment> \<open>the list comprehension of \<^verbatim>\<open>upload_file\<close>; the pool is not empty there\<close>
  "target_nodes rf ns chunk_id =
     (let num_replicas = min rf (int (length ns)) in
      map (\<lambda>i. ns ! nat ((chunk_id + int i) mod int (length ns))) [0..<nat num_replicas])"







section \<open>Faults and states used in the examples\<close>

text \<open>The oracle under which exactly one operation of the operating system fails.\<close>

definition fault_on :: "disk_op \<Rightarrow> faults" where
  "fault_on x = (\<lambda>op. op = x)"

text \<open>
  A fresh storage node (its storage directory exists, as \<^verbatim>\<open>__init__\<close> makes it) and the same
  node after it has stored chunk 0 of the file \<^verbatim>\<open>f\<close>.
\<close>

definition example_node :: storage_node where
  "example_node = \<lparr>node_id = 0, host = ''localhost'', port = 5001, storage_dir = ''n0'',
     metadata = [], ndisk = \<lparr>files = Map.empty, dirs = {''n0''}\<rparr>\<rparr>"

definition example_stored :: storage_node where
  "example_stored = \<lparr>node_id = 0, host = ''localhost'', port = 5001, storage_dir = ''n0'',
     metadata = [(''f'', [(0, (''h'', ''n0/f/chunk_0.dat''))])],
     ndisk = \<lparr>files = [''n0/f/chunk_0.dat'' \<mapsto> ''AB''], dirs = {''n0'', ''n0/f''}\<rparr>\<rparr>"

text \<open>A node that holds two chunks of the file \<^verbatim>\<open>f\<close>, and a pool of three registered nodes.\<close>

definition example_two_chunks :: storage_node where
  "example_two_chunks = \<lparr>node_id = 0, host = ''localhost'', port = 5001, storage_dir = ''n0'',
     metadata = [(''f'', [(0, (''h'', ''n0/f/chunk_0.dat'')), (1, (''k'', ''n0/f/chunk_1.dat''))])],
     ndisk = \<lparr>files = [''n0/f/chunk_0.dat'' \<mapsto> ''AB'', ''n0/f/chunk_1.dat'' \<mapsto> ''CD''],
              dirs = {''n0'', ''n0/f''}\<rparr>\<rparr>"

definition three_nodes :: "node list" where
  "three_nodes = [\<lparr>node_id = 0, host = ''localhost'', port = 5001\<rparr>,
                  \<lparr>node_id = 1, host = ''localhost'', port = 5002\<rparr>,
                  \<lparr>node_id = 2, host = ''localhost'', port = 5003\<rparr>]"





text \<open>
  A client whose registrations went through \<^verbatim>\<open>add_node\<close>, two of them under the same
  identifier: \<^verbatim>\<open>add_node\<close> appends whatever it is given.
\<close>

definition duplicate_id_client :: client where
  "duplicate_id_client =
     add_node (add_node (add_node
       \<lparr>replication_factor = 2, partitioner = 4, nodes = [], file_mapping = []\<rparr>
       5 ''localhost'' 5001) 5 ''localhost'' 5002) 7 ''localhost'' 5003"



section \<open>Properties of the partitioner\<close>







lemma write_chunks_ok:
  "\<not> flt (OpWrite p) \<Longrightarrow> files d p = Some b \<Longrightarrow>
   write_chunks flt d p cs = (None, d\<lparr>files := (files d)(p \<mapsto> b @ concat (map snd cs))\<rparr>)"
proof (induction cs arbitrary: d b)
  case Nil
  then show ?case by (simp add: map_upd_triv)
next
  case (Cons c cs)
  obtain i x where c: "c = (i, x)" by (cases c)
  let ?d' = "d\<lparr>files := (files d)(p \<mapsto> b @ x)\<rparr>"
  have step: "write_chunks flt d p (c # cs) = write_chunks flt ?d' p cs"
    using Cons.prems by (simp add: c f_write_def)
  have "files ?d' p = Some (b @ x)" by simp
  then have "write_chunks flt ?d' p cs =
      (None, ?d'\<lparr>files := (files ?d')(p \<mapsto> (b @ x) @ concat (map snd cs))\<rparr>)"
    by (rule Cons.IH[OF Cons.prems(1)])
  also have "?d'\<lparr>files := (files ?d')(p \<mapsto> (b @ x) @ concat (map snd cs))\<rparr> =
      d\<lparr>files := (files d)(p \<mapsto> b @ concat (map snd (c # cs)))\<rparr>"
    by (simp add: c)
  finally show ?case unfolding step .
qed

lemma reassemble_file_ok:
  assumes "\<not> flt (OpOpen out)" and "\<not> flt (OpWrite out)" and "out \<notin> dirs d"
  shows "reassemble_file flt d chunks out =
     (None, d\<lparr>files := (files d)(out \<mapsto> concat (map snd (sort_key fst chunks)))\<rparr>)"
proof -
  let ?d1 = "d\<lparr>files := (files d)(out \<mapsto> [])\<rparr>"
  have "files ?d1 out = Some []" by simp
  with assms(2) have "write_chunks flt ?d1 out (sort_key fst chunks) =
      (None, ?d1\<lparr>files := (files ?d1)(out \<mapsto> [] @ concat (map snd (sort_key fst chunks)))\<rparr>)"
    by (rule write_chunks_ok)
  with assms(1,3) show ?thesis
    by (simp add: reassemble_file_def open_wb_def)
qed














text \<open>
  Claim C3, as stated: a chunk list that misses a sequence id of its range makes
  \<^verbatim>\<open>reassemble_file\<close> fail. It does not: with the ids 0 and 2 and no id 1, the call ends
  without an error and the output file holds the two payloads.
\<close>

theorem reassemble_file_gap_counterexample:
  "reassemble_file no_faults \<lparr>files = Map.empty, dirs = {}\<rparr> [(0, ''AB''), (2, ''EF'')] ''out'' =
     (None, \<lparr>files = [''out'' \<mapsto> ''ABEF''], dirs = {}\<rparr>)"
  by (simp add: reassemble_file_def open_wb_def f_write_def no_faults_def)

text \<open>
  Claim C3, amended. \<^verbatim>\<open>reassemble_file\<close> makes no completeness check: for every chunk list,
  gaps or not, it ends without an error unless a disk operation on the destination fails,
  and the destination then holds the payloads of the chunks present, in ascending order
  of their sequence ids.
\<close>

theorem reassemble_file_no_gap_check:
  assumes "\<not> flt (OpOpen out)" and "\<not> flt (OpWrite out)" and "out \<notin> dirs d"
  shows "fst (reassemble_file flt d chunks out) = None
     \<and> files (snd (reassemble_file flt d chunks out)) out =
         Some (concat (map snd (sort_key fst chunks)))
     \<and> sorted (map fst (sort_key fst chunks))
     \<and> mset (sort_key fst chunks) = mset chunks"
  using reassemble_file_ok[OF assms, of chunks] by simp

text \<open>The amended claim on a list with a gap, given out of order.\<close>

theorem reassemble_file_no_gap_check_witness:
  "\<not> no_faults (OpOpen ''out'') \<and> \<not> no_faults (OpWrite ''out'') \<and> ''out'' \<notin> dirs \<lparr>files = Map.empty, dirs = {}\<rparr>
   \<and> fst (reassemble_file no_faults \<lparr>files = Map.empty, dirs = {}\<rparr> [(2, ''EF''), (0, ''AB'')] ''out'') = None
   \<and> files (snd (reassemble_file no_faults \<lparr>files = Map.empty, dirs = {}\<rparr> [(2, ''EF''), (0, ''AB'')] ''out'')) ''out'' =
         Some ''ABEF''"
  using reassemble_file_no_gap_check [of no_faults "''out''" "\<lparr>files = Map.empty, dirs = {}\<rparr>" "[(2, ''EF''), (0, ''AB'')]"]
  by (simp add: no_faults_def)

lemma length_concat_sort_key:
  "length (concat (map snd (sort_key fst chunks))) = sum_list (map (\<lambda>c. length (snd c)) chunks)"
proof -
  have "mset (map (\<lambda>c. length (snd c)) (sort_key fst chunks)) = mset (map (\<lambda>c. length (snd c)) chunks)"
    by simp
  then have "sum_list (map (\<lambda>c. length (snd c)) (sort_key fst chunks)) = sum_list (map (\<lambda>c. length (snd c)) chunks)"
    by (metis sum_mset_sum_list)
  then show ?thesis by (simp add: length_concat comp_def)
qed

text \<open>
  Claim C10. For every chunk list, duplicate sequence ids included, \<^verbatim>\<open>reassemble_file\<close>
  writes the payloads of all the entries: what it writes is a permutation of the list in
  non-decreasing order of the sequence ids, entries with the same id in the order they
  were given; nothing is dropped (the length of the output is the sum of all payload
  lengths) and nothing is rejected.
\<close>

theorem reassemble_file_duplicates:
  assumes "\<not> flt (OpOpen out)" and "\<not> flt (OpWrite out)" and "out \<notin> dirs d"
  shows "reassemble_file flt d chunks out =
            (None, d\<lparr>files := (files d)(out \<mapsto> concat (map snd (sort_key fst chunks)))\<rparr>)
     \<and> mset (sort_key fst chunks) = mset chunks
     \<and> sorted (map fst (sort_key fst chunks))
     \<and> (\<forall>k. filter (\<lambda>c. fst c = k) (sort_key fst chunks) = filter (\<lambda>c. fst c = k) chunks)
     \<and> length (concat (map snd (sort_key fst chunks))) = sum_list (map (\<lambda>c. length (snd c)) chunks)"
proof -
  let ?w = "sort_key fst chunks"
  have "reassemble_file flt d chunks out = (None, d\<lparr>files := (files d)(out \<mapsto> concat (map snd ?w))\<rparr>)"
    using assms by (rule reassemble_file_ok)
  moreover have "mset ?w = mset chunks" by simp
  moreover have "sorted (map fst ?w)" by simp
  moreover have "\<forall>k. filter (\<lambda>c. fst c = k) ?w = filter (\<lambda>c. fst c = k) chunks"
    by (simp add: sort_key_stable)
  moreover have "length (concat (map snd ?w)) = sum_list (map (\<lambda>c. length (snd c)) chunks)"
    by (rule length_concat_sort_key)
  ultimately show ?thesis by blast
qed

text \<open>Two chunks with the id 1: both are written, in the order given.\<close>

theorem reassemble_file_duplicates_witness:
  "\<not> no_faults (OpOpen ''out'') \<and> \<not> no_faults (OpWrite ''out'') \<and> ''out'' \<notin> dirs \<lparr>files = Map.empty, dirs = {}\<rparr>
   \<and> reassemble_file no_faults \<lparr>files = Map.empty, dirs = {}\<rparr> [(1, ''B''), (0, ''A''), (1, ''C'')] ''out'' =
          (None, \<lparr>files = [''out'' \<mapsto> ''ABC''], dirs = {}\<rparr>)
   \<and> sort_key fst [(1, ''B''), (0, ''A''), (1::int, ''C'')] = [(0, ''A''), (1, ''B''), (1, ''C'')]"
  using reassemble_file_duplicates [of no_faults "''out''" "\<lparr>files = Map.empty, dirs = {}\<rparr>"
      "[(1, ''B''), (0, ''A''), (1, ''C'')]"]
  by (simp add: no_faults_def)

section \<open>Properties of the storage node\<close>

lemma store_chunk_error_keeps_metadata:
  "\<not> is_success (fst (store_chunk flt s filename chunk_id chunk_data chunk_hash)) \<Longrightarrow>
   metadata (snd (store_chunk flt s filename chunk_id chunk_data chunk_hash)) = metadata s"
  by (simp add: store_chunk_def Let_def split: sum.splits)

lemma store_chunk_fault_is_error:
  assumes "flt (OpMkdir (path_join (storage_dir s) filename))
      \<or> flt (OpOpen (path_join (path_join (storage_dir s) filename) (chunk_file_name chunk_id)))
      \<or> flt (OpWrite (path_join (path_join (storage_dir s) filename) (chunk_file_name chunk_id)))"
  shows "\<not> is_success (fst (store_chunk flt s filename chunk_id chunk_data chunk_hash))"
  using assms
  by (auto simp: store_chunk_def Let_def mkdir_exist_ok_def open_wb_def f_write_def
           split: sum.splits if_splits)

lemma store_chunk_success_written:
  assumes "is_success (fst (store_chunk flt s filename chunk_id chunk_data chunk_hash))"
  shows "files (ndisk (snd (store_chunk flt s filename chunk_id chunk_data chunk_hash)))
           (path_join (path_join (storage_dir s) filename) (chunk_file_name chunk_id)) = Some chunk_data"
  using assms
  by (auto simp: store_chunk_def Let_def mkdir_exist_ok_def open_wb_def f_write_def
           split: sum.splits if_splits)

text \<open>
  Claim C6. \<^verbatim>\<open>store_chunk\<close> updates the index only after the payload has been written. If
  creating the directory, opening the chunk file or writing the payload fails, the
  response is an error and the index of the node is what it was; and whenever the index
  has changed, the response is a success and the chunk file holds the payload.
\<close>

theorem store_chunk_failed_write:
  fixes flt s filename chunk_id chunk_data chunk_hash
  defines "p \<equiv> path_join (path_join (storage_dir s) filename) (chunk_file_name chunk_id)"
    and "res \<equiv> store_chunk flt s filename chunk_id chunk_data chunk_hash"
  shows "(flt (OpMkdir (path_join (storage_dir s) filename)) \<or> flt (OpOpen p) \<or> flt (OpWrite p)
            \<longrightarrow> \<not> is_success (fst res) \<and> metadata (snd res) = metadata s)
       \<and> (metadata (snd res) \<noteq> metadata s
            \<longrightarrow> is_success (fst res) \<and> files (ndisk (snd res)) p = Some chunk_data)"
proof (intro conjI impI)
  assume f: "flt (OpMkdir (path_join (storage_dir s) filename)) \<or> flt (OpOpen p) \<or> flt (OpWrite p)"
  then show e: "\<not> is_success (fst res)"
    unfolding p_def res_def by (rule store_chunk_fault_is_error)
  then show "metadata (snd res) = metadata s"
    unfolding res_def by (rule store_chunk_error_keeps_metadata)
next
  assume c: "metadata (snd res) \<noteq> metadata s"
  then show ok: "is_success (fst res)"
    unfolding res_def using store_chunk_error_keeps_metadata by blast
  then show "files (ndisk (snd res)) p = Some chunk_data"
    unfolding res_def p_def by (rule store_chunk_success_written)
qed


lemma map_entry_twice: "AList.map_entry k g (AList.map_entry k f al) = AList.map_entry k (g \<circ> f) al"
  by (induction al) auto

lemma map_of_map_entry_None:
  "map_of (AList.map_entry k f al) k = None \<longleftrightarrow> map_of al k = None"
  by (simp add: map_of_map_entry split: option.splits)

lemma update_update_comp:
  "AList.update k v \<circ> AList.update k v' = AList.update k v"
  by (rule ext) simp

lemma path_join_neq: "path_join a b \<noteq> a"
  by (simp add: path_join_def)

lemma store_chunk_success_iff:
  "is_success (fst (store_chunk flt s filename chunk_id chunk_data chunk_hash)) \<longleftrightarrow>
     \<not> flt (OpMkdir (path_join (storage_dir s) filename))
   \<and> files (ndisk s) (path_join (storage_dir s) filename) = None
   \<and> \<not> flt (OpOpen (path_join (path_join (storage_dir s) filename) (chunk_file_name chunk_id)))
   \<and> path_join (path_join (storage_dir s) filename) (chunk_file_name chunk_id) \<notin> dirs (ndisk s)
   \<and> \<not> flt (OpWrite (path_join (path_join (storage_dir s) filename) (chunk_file_name chunk_id)))"
  by (auto simp: store_chunk_def Let_def mkdir_exist_ok_def open_wb_def f_write_def path_join_neq
           split: sum.splits if_splits)

lemma store_chunk_success_result:
  assumes "is_success (fst (store_chunk flt s filename chunk_id chunk_data chunk_hash))"
  shows "store_chunk flt s filename chunk_id chunk_data chunk_hash =
    (StoreOk (''Chunk '' @ str_int chunk_id @ '' stored'') (node_id s),
     s\<lparr>ndisk := \<lparr>files = (files (ndisk s))
                    (path_join (path_join (storage_dir s) filename) (chunk_file_name chunk_id) \<mapsto> chunk_data),
                 dirs = insert (path_join (storage_dir s) filename) (dirs (ndisk s))\<rparr>,
       metadata := AList.map_entry filename
          (AList.update chunk_id (chunk_hash, path_join (path_join (storage_dir s) filename) (chunk_file_name chunk_id)))
          (if map_of (metadata s) filename = None then AList.update filename [] (metadata s) else metadata s)\<rparr>)"
  using assms
  by (auto simp: store_chunk_def Let_def mkdir_exist_ok_def open_wb_def f_write_def
           split: sum.splits if_splits)

lemma store_chunk_keeps_fields:
  "storage_dir (snd (store_chunk flt s filename chunk_id chunk_data chunk_hash)) = storage_dir s
   \<and> node_id (snd (store_chunk flt s filename chunk_id chunk_data chunk_hash)) = node_id s"
  by (simp add: store_chunk_def Let_def split: sum.splits)

lemma store_chunk_disk_frame:
  "(\<forall>x. x \<noteq> path_join (path_join (storage_dir s) filename) (chunk_file_name chunk_id) \<longrightarrow>
      files (ndisk (snd (store_chunk flt s filename chunk_id chunk_data chunk_hash))) x = files (ndisk s) x)
   \<and> dirs (ndisk s) \<subseteq> dirs (ndisk (snd (store_chunk flt s filename chunk_id chunk_data chunk_hash)))
   \<and> dirs (ndisk (snd (store_chunk flt s filename chunk_id chunk_data chunk_hash)))
       \<subseteq> insert (path_join (storage_dir s) filename) (dirs (ndisk s))"
  by (auto simp: store_chunk_def Let_def mkdir_exist_ok_def open_wb_def f_write_def
           split: sum.splits if_splits)

lemma store_chunk_metadata_cases:
  "metadata (snd (store_chunk flt s filename chunk_id chunk_data chunk_hash)) = metadata s
   \<or> metadata (snd (store_chunk flt s filename chunk_id chunk_data chunk_hash)) =
       AList.map_entry filename
          (AList.update chunk_id (chunk_hash, path_join (path_join (storage_dir s) filename) (chunk_file_name chunk_id)))
          (if map_of (metadata s) filename = None then AList.update filename [] (metadata s) else metadata s)"
  by (simp add: store_chunk_def Let_def split: sum.splits)


lemma store_chunk_shape:
  "snd (store_chunk flt s filename chunk_id chunk_data chunk_hash) =
     s\<lparr>ndisk := ndisk (snd (store_chunk flt s filename chunk_id chunk_data chunk_hash)),
       metadata := metadata (snd (store_chunk flt s filename chunk_id chunk_data chunk_hash))\<rparr>"
  by (simp add: store_chunk_def Let_def split: sum.splits)

text \<open>
  Claim C8. Storing under a key that has been stored before overwrites the content on disk
  and the entry of the index: when the second \<^verbatim>\<open>store_chunk\<close> succeeds, its response and the
  state of the node after it are those of this store alone, issued on the node as it was
  before the first one (which may have succeeded or failed).
\<close>

theorem store_chunk_last_write_wins:
  assumes "is_success (fst (store_chunk flt2 (snd (store_chunk flt1 s filename chunk_id data1 hash1))
                              filename chunk_id data2 hash2))"
  shows "store_chunk flt2 (snd (store_chunk flt1 s filename chunk_id data1 hash1)) filename chunk_id data2 hash2
         = store_chunk flt2 s filename chunk_id data2 hash2"
proof -
  let ?dir = "path_join (storage_dir s) filename"
  let ?p = "path_join ?dir (chunk_file_name chunk_id)"
  let ?s1 = "snd (store_chunk flt1 s filename chunk_id data1 hash1)"
  let ?ens = "\<lambda>m. if map_of m filename = None then AList.update filename [] m else m"
  have sd: "storage_dir ?s1 = storage_dir s" and ni: "node_id ?s1 = node_id s"
    using store_chunk_keeps_fields[of flt1 s filename chunk_id data1 hash1] by simp_all
  have frame: "\<And>x. x \<noteq> ?p \<Longrightarrow> files (ndisk ?s1) x = files (ndisk s) x"
    and sub1: "dirs (ndisk s) \<subseteq> dirs (ndisk ?s1)"
    and sub2: "dirs (ndisk ?s1) \<subseteq> insert ?dir (dirs (ndisk s))"
    using store_chunk_disk_frame[of s filename chunk_id flt1 data1 hash1] by blast+
  from assms have c: "\<not> flt2 (OpMkdir ?dir)" "files (ndisk ?s1) ?dir = None"
      "\<not> flt2 (OpOpen ?p)" "?p \<notin> dirs (ndisk ?s1)" "\<not> flt2 (OpWrite ?p)"
    unfolding store_chunk_success_iff sd by simp_all
  have "?dir \<noteq> ?p" using path_join_neq[of ?dir "chunk_file_name chunk_id"] by simp
  with c(2) frame have "files (ndisk s) ?dir = None" by metis
  moreover from c(4) sub1 have "?p \<notin> dirs (ndisk s)" by blast
  ultimately have ok: "is_success (fst (store_chunk flt2 s filename chunk_id data2 hash2))"
    unfolding store_chunk_success_iff using c by simp
  have files_eq: "(files (ndisk ?s1))(?p \<mapsto> data2) = (files (ndisk s))(?p \<mapsto> data2)"
    using frame by (auto simp: fun_eq_iff)
  have dirs_eq: "insert ?dir (dirs (ndisk ?s1)) = insert ?dir (dirs (ndisk s))"
    using sub1 sub2 by blast
  have md_eq: "AList.map_entry filename (AList.update chunk_id (hash2, ?p)) (?ens (metadata ?s1))
      = AList.map_entry filename (AList.update chunk_id (hash2, ?p)) (?ens (metadata s))"
  proof -
    from store_chunk_metadata_cases[of flt1 s filename chunk_id data1 hash1]
    consider "metadata ?s1 = metadata s"
      | "metadata ?s1 = AList.map_entry filename (AList.update chunk_id (hash1, ?p)) (?ens (metadata s))"
      by blast
    then show ?thesis
    proof cases
      case 1
      then show ?thesis by simp
    next
      case 2
      have present: "map_of (?ens (metadata s)) filename \<noteq> None"
        by (simp add: update_conv')
      have "map_of (metadata ?s1) filename \<noteq> None"
        using present unfolding 2 map_of_map_entry_None .
      then have "?ens (metadata ?s1) = metadata ?s1" by auto
      then show ?thesis
        unfolding 2 by (simp only: map_entry_twice update_update_comp)
    qed
  qed
  obtain d m where shape: "?s1 = s\<lparr>ndisk := d, metadata := m\<rparr>"
    using store_chunk_shape[of flt1 s filename chunk_id data1 hash1] by blast
  have "store_chunk flt2 ?s1 filename chunk_id data2 hash2 =
    (StoreOk (''Chunk '' @ str_int chunk_id @ '' stored'') (node_id ?s1),
     ?s1\<lparr>ndisk := \<lparr>files = (files (ndisk ?s1))(path_join (path_join (storage_dir ?s1) filename) (chunk_file_name chunk_id) \<mapsto> data2),
                 dirs = insert (path_join (storage_dir ?s1) filename) (dirs (ndisk ?s1))\<rparr>,
       metadata := AList.map_entry filename
          (AList.update chunk_id (hash2, path_join (path_join (storage_dir ?s1) filename) (chunk_file_name chunk_id)))
          (?ens (metadata ?s1))\<rparr>)"
    using assms by (rule store_chunk_success_result)
  also have "\<dots> = (StoreOk (''Chunk '' @ str_int chunk_id @ '' stored'') (node_id s),
     ?s1\<lparr>ndisk := \<lparr>files = (files (ndisk s))(?p \<mapsto> data2), dirs = insert ?dir (dirs (ndisk s))\<rparr>,
       metadata := AList.map_entry filename (AList.update chunk_id (hash2, ?p)) (?ens (metadata s))\<rparr>)"
    unfolding sd ni files_eq dirs_eq md_eq ..
  also have "?s1\<lparr>ndisk := \<lparr>files = (files (ndisk s))(?p \<mapsto> data2), dirs = insert ?dir (dirs (ndisk s))\<rparr>,
       metadata := AList.map_entry filename (AList.update chunk_id (hash2, ?p)) (?ens (metadata s))\<rparr>
     = s\<lparr>ndisk := \<lparr>files = (files (ndisk s))(?p \<mapsto> data2), dirs = insert ?dir (dirs (ndisk s))\<rparr>,
       metadata := AList.map_entry filename (AList.update chunk_id (hash2, ?p)) (?ens (metadata s))\<rparr>"
    unfolding shape by simp
  also have "(StoreOk (''Chunk '' @ str_int chunk_id @ '' stored'') (node_id s),
     s\<lparr>ndisk := \<lparr>files = (files (ndisk s))(?p \<mapsto> data2), dirs = insert ?dir (dirs (ndisk s))\<rparr>,
       metadata := AList.map_entry filename (AList.update chunk_id (hash2, ?p)) (?ens (metadata s))\<rparr>)
     = store_chunk flt2 s filename chunk_id data2 hash2"
    using store_chunk_success_result[OF ok] by simp
  finally show ?thesis .
qed


lemma chunk_file_name_0: "chunk_file_name 0 = ''chunk_0.dat''"
  by (simp add: chunk_file_name_def str_int_def str_nat.simps digit_char_def)

lemma example_store: "store_chunk no_faults example_node ''f'' 0 ''AB'' ''h'' =
   (StoreOk ''Chunk 0 stored'' 0, example_stored)"
  by (simp add: store_chunk_def example_node_def example_stored_def Let_def mkdir_exist_ok_def
        open_wb_def f_write_def no_faults_def path_join_def chunk_file_name_0
        str_int_def str_nat.simps digit_char_def insert_commute)

text \<open>A failing write on a fresh node, and a store without faults on the same node.\<close>

theorem store_chunk_failed_write_witness:
  "fault_on (OpWrite ''n0/f/chunk_0.dat'')
     (OpWrite (path_join (path_join (storage_dir example_node) ''f'') (chunk_file_name 0)))
   \<and> \<not> is_success (fst (store_chunk (fault_on (OpWrite ''n0/f/chunk_0.dat'')) example_node ''f'' 0 ''AB'' ''h''))
   \<and> metadata (snd (store_chunk (fault_on (OpWrite ''n0/f/chunk_0.dat'')) example_node ''f'' 0 ''AB'' ''h'')) = []
   \<and> metadata (snd (store_chunk no_faults example_node ''f'' 0 ''AB'' ''h'')) \<noteq> metadata example_node
   \<and> files (ndisk (snd (store_chunk no_faults example_node ''f'' 0 ''AB'' ''h''))) ''n0/f/chunk_0.dat'' = Some ''AB''"
proof -
  have f: "fault_on (OpWrite ''n0/f/chunk_0.dat'')
     (OpWrite (path_join (path_join (storage_dir example_node) ''f'') (chunk_file_name 0)))"
    by (simp add: fault_on_def example_node_def path_join_def chunk_file_name_0)
  have c: "metadata (snd (store_chunk no_faults example_node ''f'' 0 ''AB'' ''h'')) \<noteq> metadata example_node"
    by (simp add: example_store) (simp add: example_stored_def example_node_def)
  have p: "path_join (path_join (storage_dir example_node) ''f'') (chunk_file_name 0) = ''n0/f/chunk_0.dat''"
    by (simp add: example_node_def path_join_def chunk_file_name_0)
  from store_chunk_failed_write [of "fault_on (OpWrite ''n0/f/chunk_0.dat'')" example_node "''f''" 0 "''AB''" "''h''"] f
  have 1: "\<not> is_success (fst (store_chunk (fault_on (OpWrite ''n0/f/chunk_0.dat'')) example_node ''f'' 0 ''AB'' ''h''))"
    and 2: "metadata (snd (store_chunk (fault_on (OpWrite ''n0/f/chunk_0.dat'')) example_node ''f'' 0 ''AB'' ''h'')) = metadata example_node"
    by blast+
  from store_chunk_failed_write [of no_faults example_node "''f''" 0 "''AB''" "''h''"] c
  have 3: "files (ndisk (snd (store_chunk no_faults example_node ''f'' 0 ''AB'' ''h'')))
      (path_join (path_join (storage_dir example_node) ''f'') (chunk_file_name 0)) = Some ''AB''"
    by blast
  from f 1 2 c 3 show ?thesis unfolding p by (simp add: example_node_def)
qed

text \<open>Chunk 0 of \<^verbatim>\<open>f\<close> stored twice, with \<^verbatim>\<open>AB\<close> and then with \<^verbatim>\<open>CD\<close>.\<close>

theorem store_chunk_last_write_wins_witness:
  "is_success (fst (store_chunk no_faults (snd (store_chunk no_faults example_node ''f'' 0 ''AB'' ''h''))
                              ''f'' 0 ''CD'' ''k''))
   \<and> store_chunk no_faults (snd (store_chunk no_faults example_node ''f'' 0 ''AB'' ''h'')) ''f'' 0 ''CD'' ''k''
       = store_chunk no_faults example_node ''f'' 0 ''CD'' ''k''
   \<and> snd (store_chunk no_faults example_node ''f'' 0 ''CD'' ''k'') =
       \<lparr>node_id = 0, host = ''localhost'', port = 5001, storage_dir = ''n0'',
        metadata = [(''f'', [(0, (''k'', ''n0/f/chunk_0.dat''))])],
        ndisk = \<lparr>files = [''n0/f/chunk_0.dat'' \<mapsto> ''CD''], dirs = {''n0'', ''n0/f''}\<rparr>\<rparr>"
proof -
  have ok: "is_success (fst (store_chunk no_faults (snd (store_chunk no_faults example_node ''f'' 0 ''AB'' ''h''))
                              ''f'' 0 ''CD'' ''k''))"
    by (simp add: example_store store_chunk_success_iff)
       (simp add: example_stored_def no_faults_def path_join_def chunk_file_name_0)
  have st: "snd (store_chunk no_faults example_node ''f'' 0 ''CD'' ''k'') =
       \<lparr>node_id = 0, host = ''localhost'', port = 5001, storage_dir = ''n0'',
        metadata = [(''f'', [(0, (''k'', ''n0/f/chunk_0.dat''))])],
        ndisk = \<lparr>files = [''n0/f/chunk_0.dat'' \<mapsto> ''CD''], dirs = {''n0'', ''n0/f''}\<rparr>\<rparr>"
    by (simp add: store_chunk_def example_node_def Let_def mkdir_exist_ok_def
        open_wb_def f_write_def no_faults_def path_join_def chunk_file_name_0 insert_commute)
  from store_chunk_last_write_wins [OF ok] ok st show ?thesis by simp
qed

lemma remove_chunks_path_exists:
  "path_exists d p \<Longrightarrow> flt (OpRemove p) \<Longrightarrow> fst (remove_chunks flt d chunks) = None \<Longrightarrow>
   path_exists (snd (remove_chunks flt d chunks)) p \<and> (\<forall>c \<in> set chunks. snd (snd c) \<noteq> p)"
proof (induction chunks arbitrary: d)
  case Nil
  then show ?case by simp
next
  case (Cons c chunks)
  obtain cid h q where c: "c = (cid, h, q)" by (cases c)
  show ?case
  proof (cases "path_exists d q")
    case False
    with Cons.prems have "q \<noteq> p" by auto
    moreover from False Cons.prems have "fst (remove_chunks flt d chunks) = None" by (simp add: c)
    ultimately show ?thesis using Cons.IH[OF Cons.prems(1,2)] False by (simp add: c)
  next
    case True
    show ?thesis
    proof (cases "os_remove flt d q")
      case (Inl e)
      with True Cons.prems show ?thesis by (simp add: c)
    next
      case (Inr d')
      then have qp: "q \<noteq> p" using Cons.prems(2) by (auto simp: os_remove_def split: if_splits)
      from Inr have d': "d' = d\<lparr>files := (files d)(q := None)\<rparr>"
        by (auto simp: os_remove_def split: if_splits)
      with qp Cons.prems(1) have pe: "path_exists d' p" by (simp add: path_exists_def)
      from Inr True Cons.prems(3) have "fst (remove_chunks flt d' chunks) = None" by (simp add: c)
      from Cons.IH[OF pe Cons.prems(2) this] Inr True qp show ?thesis by (simp add: c)
    qed
  qed
qed

lemma remove_chunks_fails:
  assumes "(cid, h, p) \<in> set chunks" and "path_exists d p" and "flt (OpRemove p)"
  shows "fst (remove_chunks flt d chunks) \<noteq> None"
proof
  assume "fst (remove_chunks flt d chunks) = None"
  from remove_chunks_path_exists[OF assms(2,3) this] assms(1) show False by auto
qed

lemma delete_file_error_keeps_metadata:
  "\<not> is_success (fst (delete_file flt s filename)) \<Longrightarrow>
   metadata (snd (delete_file flt s filename)) = metadata s"
  by (auto simp: delete_file_def Let_def split: option.splits prod.splits sum.splits if_splits)

lemma delete_file_success_clears:
  "is_success (fst (delete_file flt s filename)) \<Longrightarrow>
   map_of (metadata (snd (delete_file flt s filename))) filename = None"
  by (auto simp: delete_file_def Let_def delete_conv' split: option.splits prod.splits sum.splits)

lemma delete_file_remove_fails:
  assumes "map_of (metadata s) filename = Some chunks" and "fst (remove_chunks flt (ndisk s) chunks) \<noteq> None"
  shows "\<not> is_success (fst (delete_file flt s filename))"
  using assms by (auto simp: delete_file_def Let_def split: option.splits prod.splits sum.splits)

text \<open>
  Claim C7, as stated: when the removal of a chunk file fails in the middle of
  \<^verbatim>\<open>delete_file\<close>, the response is an error and the index entries of the file are cleared.
  They are not: on a node with two chunks of \<^verbatim>\<open>f\<close>, where chunk 0 is removed and the removal
  of chunk 1 fails, the response is an error, the file of chunk 0 is gone, and the index
  still holds both entries of \<^verbatim>\<open>f\<close>.
\<close>

theorem delete_file_failure_counterexample:
  "delete_file (fault_on (OpRemove ''n0/f/chunk_1.dat'')) example_two_chunks ''f'' =
     (Error ''OSError'',
      example_two_chunks\<lparr>ndisk := \<lparr>files = [''n0/f/chunk_1.dat'' \<mapsto> ''CD''], dirs = {''n0'', ''n0/f''}\<rparr>\<rparr>)
   \<and> map_of (metadata (snd (delete_file (fault_on (OpRemove ''n0/f/chunk_1.dat'')) example_two_chunks ''f''))) ''f''
       = Some [(0, (''h'', ''n0/f/chunk_0.dat'')), (1, (''k'', ''n0/f/chunk_1.dat''))]"
  by (simp add: delete_file_def example_two_chunks_def fault_on_def path_exists_def os_remove_def fun_upd_twist)

text \<open>
  Claim C7, amended. A file that is not in the index gives the error \<^verbatim>\<open>File not found\<close> and
  changes nothing. When the removal of the payload of some chunk of the file fails,
  \<^verbatim>\<open>delete_file\<close> answers with an error; every error response leaves the index as it was (the
  chunk files removed before the failure stay removed), and the index entry of the file
  is cleared exactly when the response is a success.
\<close>

theorem delete_file_failure_keeps_index:
  "(map_of (metadata s) filename = None \<longrightarrow> delete_file flt s filename = (Error ''File not found'', s))
   \<and> (map_of (metadata s) filename = Some chunks \<and> (cid, h, p) \<in> set chunks
        \<and> path_exists (ndisk s) p \<and> flt (OpRemove p)
        \<longrightarrow> \<not> is_success (fst (delete_file flt s filename)))
   \<and> (\<not> is_success (fst (delete_file flt s filename))
        \<longrightarrow> metadata (snd (delete_file flt s filename)) = metadata s)
   \<and> (is_success (fst (delete_file flt s filename))
        \<longrightarrow> map_of (metadata (snd (delete_file flt s filename))) filename = None)"
proof (intro conjI impI)
  assume "map_of (metadata s) filename = None"
  then show "delete_file flt s filename = (Error ''File not found'', s)"
    by (simp add: delete_file_def)
next
  assume a: "map_of (metadata s) filename = Some chunks \<and> (cid, h, p) \<in> set chunks
        \<and> path_exists (ndisk s) p \<and> flt (OpRemove p)"
  then have "fst (remove_chunks flt (ndisk s) chunks) \<noteq> None"
    by (intro remove_chunks_fails[of cid h p]) simp_all
  with a show "\<not> is_success (fst (delete_file flt s filename))"
    by (intro delete_file_remove_fails[of s filename chunks]) simp_all
next
  assume "\<not> is_success (fst (delete_file flt s filename))"
  then show "metadata (snd (delete_file flt s filename)) = metadata s"
    by (rule delete_file_error_keeps_metadata)
next
  assume "is_success (fst (delete_file flt s filename))"
  then show "map_of (metadata (snd (delete_file flt s filename))) filename = None"
    by (rule delete_file_success_clears)
qed

text \<open>
  The three cases on concrete nodes: a file the node does not know, a removal that fails
  on the second chunk, and a deletion without faults.
\<close>

theorem delete_file_failure_keeps_index_witness:
  "map_of (metadata example_node) ''f'' = None
   \<and> delete_file no_faults example_node ''f'' = (Error ''File not found'', example_node)
   \<and> map_of (metadata example_two_chunks) ''f''
        = Some [(0, (''h'', ''n0/f/chunk_0.dat'')), (1, (''k'', ''n0/f/chunk_1.dat''))]
   \<and> (1, ''k'', ''n0/f/chunk_1.dat'') \<in> set [(0, (''h'', ''n0/f/chunk_0.dat'')), (1::int, (''k'', ''n0/f/chunk_1.dat''))]
   \<and> path_exists (ndisk example_two_chunks) ''n0/f/chunk_1.dat''
   \<and> fault_on (OpRemove ''n0/f/chunk_1.dat'') (OpRemove ''n0/f/chunk_1.dat'')
   \<and> \<not> is_success (fst (delete_file (fault_on (OpRemove ''n0/f/chunk_1.dat'')) example_two_chunks ''f''))
   \<and> metadata (snd (delete_file (fault_on (OpRemove ''n0/f/chunk_1.dat'')) example_two_chunks ''f''))
        = metadata example_two_chunks
   \<and> is_success (fst (delete_file no_faults example_two_chunks ''f''))
   \<and> map_of (metadata (snd (delete_file no_faults example_two_chunks ''f''))) ''f'' = None"
proof -
  have a: "map_of (metadata example_node) ''f'' = None"
    by (simp add: example_node_def)
  have b: "map_of (metadata example_two_chunks) ''f''
        = Some [(0, (''h'', ''n0/f/chunk_0.dat'')), (1, (''k'', ''n0/f/chunk_1.dat''))]
      \<and> (1, ''k'', ''n0/f/chunk_1.dat'') \<in> set [(0, (''h'', ''n0/f/chunk_0.dat'')), (1::int, (''k'', ''n0/f/chunk_1.dat''))]
      \<and> path_exists (ndisk example_two_chunks) ''n0/f/chunk_1.dat''
      \<and> fault_on (OpRemove ''n0/f/chunk_1.dat'') (OpRemove ''n0/f/chunk_1.dat'')"
    by (simp add: example_two_chunks_def path_exists_def fault_on_def)
  have c: "is_success (fst (delete_file no_faults example_two_chunks ''f''))"
    by (simp add: delete_file_def example_two_chunks_def no_faults_def path_exists_def os_remove_def
          rmdir_def path_join_def Let_def)
  note t1 = delete_file_failure_keeps_index [where s = example_node and filename = "''f''" and flt = no_faults]
  note t2 = delete_file_failure_keeps_index [where s = example_two_chunks and filename = "''f''"
      and chunks = "[(0, (''h'', ''n0/f/chunk_0.dat'')), (1, (''k'', ''n0/f/chunk_1.dat''))]"
      and cid = 1 and h = "''k''" and p = "''n0/f/chunk_1.dat''"
      and flt = "fault_on (OpRemove ''n0/f/chunk_1.dat'')"]
  note t3 = delete_file_failure_keeps_index [where s = example_two_chunks and filename = "''f''"
      and flt = no_faults]
  from t1 a have 1: "delete_file no_faults example_node ''f'' = (Error ''File not found'', example_node)"
    by blast
  from t2 b have 2: "\<not> is_success (fst (delete_file (fault_on (OpRemove ''n0/f/chunk_1.dat'')) example_two_chunks ''f''))"
    by blast
  with t2 have 3: "metadata (snd (delete_file (fault_on (OpRemove ''n0/f/chunk_1.dat'')) example_two_chunks ''f''))
        = metadata example_two_chunks" by blast
  from t3 c have 4: "map_of (metadata (snd (delete_file no_faults example_two_chunks ''f''))) ''f'' = None"
    by blast
  from a 1 b 2 3 c 4 show ?thesis by blast
qed

section \<open>Properties of the client\<close>

lemma mod_index_inj:
  fixes cid :: int
  assumes "i < j" and "int j < n"
  shows "(cid + int i) mod n \<noteq> (cid + int j) mod n"
proof
  assume "(cid + int i) mod n = (cid + int j) mod n"
  then have "(cid + int j) mod n = (cid + int i) mod n" by simp
  then have "n dvd (cid + int j) - (cid + int i)"
    by (simp only: mod_eq_dvd_iff)
  then have "n dvd int j - int i" by simp
  moreover from assms have "0 < int j - int i" "int j - int i < n" by simp_all
  ultimately show False using zdvd_not_zless by blast
qed

lemma target_nodes_indices_distinct:
  assumes "rf \<le> int (length ns)"
  shows "distinct (map (\<lambda>i. nat ((cid + int i) mod int (length ns))) [0..<nat rf])"
proof -
  have "inj_on (\<lambda>i. nat ((cid + int i) mod int (length ns))) {0..<nat rf}"
  proof (rule inj_onI)
    fix x y assume x: "x \<in> {0..<nat rf}" and y: "y \<in> {0..<nat rf}"
      and e: "nat ((cid + int x) mod int (length ns)) = nat ((cid + int y) mod int (length ns))"
    from x assms have pos: "0 < int (length ns)" by auto
    from x y assms have bx: "int x < int (length ns)" and "int y < int (length ns)" by auto
    from pos have "0 \<le> (cid + int x) mod int (length ns)" "0 \<le> (cid + int y) mod int (length ns)"
      by simp_all
    with e have e': "(cid + int x) mod int (length ns) = (cid + int y) mod int (length ns)" by simp
    show "x = y"
    proof (rule ccontr)
      assume "x \<noteq> y"
      then consider "x < y" | "y < x" by linarith
      then show False
      proof cases
        case 1
        from mod_index_inj[OF 1 \<open>int y < int (length ns)\<close>, of cid] e' show False by simp
      next
        case 2
        from mod_index_inj[OF 2 bx, of cid] e' show False by simp
      qed
    qed
  qed
  then show ?thesis by (simp add: distinct_map)
qed

lemma target_nodes_index_bound:
  assumes "i < nat rf" and "rf \<le> int (length ns)"
  shows "nat ((cid + int i) mod int (length ns)) < length ns"
proof -
  from assms have "0 < int (length ns)" by auto
  then have "0 \<le> (cid + int i) mod int (length ns)" "(cid + int i) mod int (length ns) < int (length ns)"
    by simp_all
  then show ?thesis by linarith
qed

lemma target_nodes_eq:
  assumes "rf \<le> int (length ns)"
  shows "target_nodes rf ns chunk_id =
     map (\<lambda>i. ns ! nat ((chunk_id + int i) mod int (length ns))) [0..<nat rf]"
  using assms by (simp add: target_nodes_def Let_def min_def)

lemma target_nodes_distinct_image:
  assumes "rf \<le> int (length ns)" and "distinct (map f ns)"
  shows "distinct (map f (target_nodes rf ns chunk_id))"
proof -
  let ?ix = "\<lambda>i. nat ((chunk_id + int i) mod int (length ns))"
  have dix: "distinct (map ?ix [0..<nat rf])"
    using assms(1) by (rule target_nodes_indices_distinct)
  have "map f (target_nodes rf ns chunk_id) = map (\<lambda>k. map f ns ! k) (map ?ix [0..<nat rf])"
    unfolding target_nodes_eq[OF assms(1)]
    using target_nodes_index_bound[OF _ assms(1), of _ chunk_id] by simp
  moreover have "distinct (map (\<lambda>k. map f ns ! k) (map ?ix [0..<nat rf]))"
  proof (subst distinct_map, intro conjI dix inj_onI)
    fix x y assume x: "x \<in> set (map ?ix [0..<nat rf])" and y: "y \<in> set (map ?ix [0..<nat rf])"
      and e: "map f ns ! x = map f ns ! y"
    from x y have "x < length ns" "y < length ns"
      using target_nodes_index_bound[OF _ assms(1), of _ chunk_id] by auto
    with e assms(2) show "x = y" by (simp add: nth_eq_iff_index_eq del: nth_map)
  qed
  ultimately show ?thesis by simp
qed

text \<open>
  Claim C4, as stated: for every pool of \<open>N\<close> nodes and every \<open>R \<le> N\<close> the replica set of a
  chunk has \<open>R\<close> distinct node identifiers. \<^verbatim>\<open>add_node\<close> registers a second node under an
  identifier already in use, and with the identifiers 5, 5, 7 registered and \<open>R = 2\<close> the
  replica set of chunk 0 is the first two registrations: the identifier 5 twice.
\<close>

theorem target_nodes_duplicate_id_counterexample:
  "map node_id (nodes duplicate_id_client) = [5, 5, 7]
   \<and> replication_factor duplicate_id_client \<le> int (length (nodes duplicate_id_client))
   \<and> map node_id (target_nodes (replication_factor duplicate_id_client) (nodes duplicate_id_client) 0) = [5, 5]
   \<and> \<not> distinct (map node_id
          (target_nodes (replication_factor duplicate_id_client) (nodes duplicate_id_client) 0))"
  by (simp add: duplicate_id_client_def add_node_def target_nodes_def Let_def
        upt_rec[of 0] upt_rec[of "Suc 0"])

text \<open>
  Claim C4, amended. With a replication factor \<open>R\<close> that is at most the number \<open>N\<close> of
  registered nodes, the replica set \<^verbatim>\<open>upload_file\<close> chooses for a chunk is the nodes at the
  pool indices \<open>(chunk_id + i) mod N\<close> for \<open>i = 0, \<dots>, R - 1\<close>: \<open>R\<close> entries of the pool (none when
  \<open>R\<close> is not positive), at pairwise different indices. No registration appears twice in it when the registrations
  are pairwise different, and no identifier appears twice when the registered nodes have
  pairwise different identifiers. With the three nodes 0, 1, 2 and \<open>R = 2\<close>, chunk 0 goes
  to the nodes 0 and 1, chunk 1 to 1 and 2, chunk 2 to 2 and 0.
\<close>

theorem target_nodes_round_robin:
  assumes "rf \<le> int (length ns)"
  shows "target_nodes rf ns chunk_id = map (\<lambda>i. ns ! nat ((chunk_id + int i) mod int (length ns))) [0..<nat rf]
     \<and> length (target_nodes rf ns chunk_id) = nat rf
     \<and> distinct (map (\<lambda>i. nat ((chunk_id + int i) mod int (length ns))) [0..<nat rf])
     \<and> (distinct ns \<longrightarrow> distinct (target_nodes rf ns chunk_id))
     \<and> (distinct (map node_id ns) \<longrightarrow> distinct (map node_id (target_nodes rf ns chunk_id)))
     \<and> map node_id (target_nodes 2 three_nodes 0) = [0, 1]
     \<and> map node_id (target_nodes 2 three_nodes 1) = [1, 2]
     \<and> map node_id (target_nodes 2 three_nodes 2) = [2, 0]"
proof -
  let ?ix = "\<lambda>i. nat ((chunk_id + int i) mod int (length ns))"
  have eq: "target_nodes rf ns chunk_id = map (\<lambda>i. ns ! ?ix i) [0..<nat rf]"
    using assms by (rule target_nodes_eq)
  then have len: "length (target_nodes rf ns chunk_id) = nat rf" by simp
  have dix: "distinct (map ?ix [0..<nat rf])"
    using assms by (rule target_nodes_indices_distinct)
  have dns: "distinct (target_nodes rf ns chunk_id)" if "distinct ns"
    using target_nodes_distinct_image[OF assms, of "\<lambda>n. n" chunk_id] that by simp
  have did: "distinct (map node_id (target_nodes rf ns chunk_id))" if "distinct (map node_id ns)"
    using assms that by (rule target_nodes_distinct_image)
  have ex: "map node_id (target_nodes 2 three_nodes 0) = [0, 1]"
     "map node_id (target_nodes 2 three_nodes 1) = [1, 2]"
     "map node_id (target_nodes 2 three_nodes 2) = [2, 0]"
    by (simp_all add: target_nodes_def three_nodes_def Let_def upt_rec[of 0] upt_rec[of "Suc 0"])
  from eq len dix dns did ex show ?thesis by blast
qed

text \<open>The replica set of chunk 2 in the pool of three nodes.\<close>

theorem target_nodes_round_robin_witness:
  "(2::int) \<le> int (length three_nodes) \<and> distinct three_nodes \<and> distinct (map node_id three_nodes)
   \<and> target_nodes 2 three_nodes 2 =
       [\<lparr>node_id = 2, host = ''localhost'', port = 5003\<rparr>, \<lparr>node_id = 0, host = ''localhost'', port = 5001\<rparr>]
   \<and> length (target_nodes 2 three_nodes 2) = 2
   \<and> distinct (target_nodes 2 three_nodes 2)
   \<and> distinct (map node_id (target_nodes 2 three_nodes 2))"
proof -
  have h: "(2::int) \<le> int (length three_nodes)" "distinct three_nodes" "distinct (map node_id three_nodes)"
    by (simp_all add: three_nodes_def)
  from target_nodes_round_robin [OF h(1), of 2] h show ?thesis
    by (simp add: three_nodes_def upt_rec[of 0] upt_rec[of "Suc 0"])
qed





















end
